theory Spec2Isabelle
  imports Main "HOL-Library.AList"
begin

section \<open>The client session source of xpra (client\_connection.py)\<close>

text \<open>
  A shallow embedding of \<^verbatim>\<open>ClientConnection\<close> from
  \<^verbatim>\<open>src/xpra/server/source/client_connection.py\<close>. The class becomes a record,
  each method a function from the session to the session it leaves behind (and the value
  it returns), Python's unbounded integers are \<open>int\<close>, \<^verbatim>\<open>None\<close> is \<open>None\<close> of
  an option type, and a raised exception is a value.
\<close>

subsection \<open>Values, packets and queue entries\<close>

text \<open>The values that travel in a packet (the \<^verbatim>\<open>parts\<close> tuple given to \<^verbatim>\<open>send\<close>).\<close>

datatype pyval = PyNone | PyBool bool | PyInt int | PyStr string | PyTuple "pyval list"

type_synonym packet = "pyval list"

text \<open>A callable is known by its identity only.\<close>

datatype callback = Callback nat

text \<open>
  An entry of \<^verbatim>\<open>ordinary_packets\<close> is the tuple
  \<^verbatim>\<open>(parts, synchronous, fail_cb, will_have_more)\<close> appended by \<^verbatim>\<open>send\<close>.
  An entry of \<^verbatim>\<open>packet_queue\<close> is the tuple
  \<^verbatim>\<open>(packet, wid, pixels, start_send_cb, end_send_cb, fail_cb, will_have_more)\<close>
  that \<^verbatim>\<open>next_packet\<close> unpacks.
\<close>

type_synonym ordinary_entry = "packet \<times> bool \<times> callback option \<times> bool"

type_synonym bulk_entry =
  "packet \<times> int \<times> int \<times> callback option \<times> callback option \<times> callback option \<times> bool"

text \<open>Exceptions the modelled methods can raise.\<close>

datatype py_error = ZeroDivisionError

subsection \<open>Window sources\<close>

text \<open>
  The attributes of a \<^verbatim>\<open>WindowSource\<close> that \<^verbatim>\<open>ClientConnection\<close> reads and
  writes: \<^verbatim>\<open>suspended\<close>, \<^verbatim>\<open>window_dimensions\<close>, the value of
  \<^verbatim>\<open>statistics.get_damage_pixels()\<close>, \<^verbatim>\<open>bandwidth_limit\<close> and the delay stored by
  \<^verbatim>\<open>set_av_sync_delay\<close>.
\<close>

record window_source =
  ws_suspended :: bool
  ws_window_dimensions :: "int \<times> int"
  ws_damage_pixels :: int
  ws_bandwidth_limit :: int
  ws_av_sync_delay :: int

subsection \<open>The main loop\<close>

text \<open>
  Modelled from the spec: the timer scheduler behind \<^verbatim>\<open>timeout_add\<close> and
  \<^verbatim>\<open>source_remove\<close>, which are handed to the constructor and are not part of this
  file. It is a list of pending sources \<open>(id, delay in ms, callback)\<close> and the next free
  source id: \<^verbatim>\<open>timeout_add\<close> registers a source and returns its id,
  \<^verbatim>\<open>source_remove\<close> cancels it, and cancelling a source that is not pending does
  nothing.
\<close>

datatype timer_callback = Idle_timedout | Idle_grace_timedout

record main_loop =
  sources :: "(nat \<times> int \<times> timer_callback) list"
  next_source_id :: nat

definition timeout_add :: "int \<Rightarrow> timer_callback \<Rightarrow> main_loop \<Rightarrow> nat \<times> main_loop" where
  "timeout_add delay cb ml =
     (next_source_id ml,
      ml\<lparr>sources := sources ml @ [(next_source_id ml, delay, cb)],
         next_source_id := Suc (next_source_id ml)\<rparr>)"

definition source_remove :: "nat \<Rightarrow> main_loop \<Rightarrow> main_loop" where
  "source_remove h ml = ml\<lparr>sources := filter (\<lambda>src. fst src \<noteq> h) (sources ml)\<rparr>"

text \<open>The callbacks \<^verbatim>\<open>idle_timeout_cb\<close> and \<^verbatim>\<open>idle_grace_timeout_cb\<close> given to the
  constructor: a call is recorded in the session's log.\<close>

datatype cb_event = Idle_timeout_cb | Idle_grace_timeout_cb

subsection \<open>The session\<close>

text \<open>
  The attributes that the mixin base classes own and \<^verbatim>\<open>ClientConnection\<close> uses.
  \<^verbatim>\<open>encode_work_queue\<close> holds work items, \<^verbatim>\<open>None\<close> being the end of queue marker.
\<close>

record mixin_state =
  packet_queue :: "bulk_entry list"
  encode_work_queue :: "nat option list"
  window_sources :: "(int \<times> window_source) list"
  mmap_size :: int
  suspended :: bool

text \<open>
  The attributes set by \<^verbatim>\<open>__init__\<close> and \<^verbatim>\<open>init_vars\<close>. \<^verbatim>\<open>close_event\<close> is the
  flag of the \<^verbatim>\<open>Event\<close>; \<^verbatim>\<open>protocol\<close> is the identity of the protocol object or
  \<^verbatim>\<open>None\<close>; \<open>source_has_more_calls\<close> counts the calls of
  \<^verbatim>\<open>protocol.source_has_more()\<close>; \<open>avg_congestion_send_speed\<close> is the field of
  \<^verbatim>\<open>self.statistics\<close>; \<open>callbacks_invoked\<close> logs the calls of the two idle callbacks.
\<close>

record session =
  mixins :: mixin_state
  close_event :: bool
  ordinary_packets :: "ordinary_entry list"
  protocol :: "nat option"
  source_has_more_calls :: nat
  idle_timeout :: int
  idle_grace_duration :: int
  idle_timer :: "nat option"
  idle_grace_timer :: "nat option"
  loop :: main_loop
  callbacks_invoked :: "cb_event list"
  bandwidth_limit :: int
  soft_bandwidth_limit :: int
  avg_congestion_send_speed :: int
  av_sync :: bool
  av_sync_delay :: int
  av_sync_delay_total :: int
  av_sync_delta :: int
  hello_sent :: bool
  send_notifications :: bool
  notification_callbacks :: "int \<rightharpoonup> callback"
  desktop_size :: "(int \<times> int) option"

definition is_closed :: "session \<Rightarrow> bool" where
  "is_closed s = close_event s"

subsection \<open>The packet scheduler\<close>

text \<open>
  The tuple \<^verbatim>\<open>next_packet\<close> returns:
  \<^verbatim>\<open>packet, start_send_cb, end_send_cb, fail_cb, synchronous, have_more, will_have_more\<close>.
\<close>

type_synonym next_result =
  "packet option \<times> callback option \<times> callback option \<times> callback option \<times> bool \<times> bool \<times> bool"

definition have_more_of :: "packet option \<Rightarrow> session \<Rightarrow> bool" where
  "have_more_of pkt s =
     (pkt \<noteq> None \<and> (length (ordinary_packets s) > 0 \<or> length (packet_queue (mixins s)) > 0))"

definition next_packet :: "session \<Rightarrow> next_result \<times> session" where
  "next_packet s =
     (if \<not> is_closed s then
        (if length (ordinary_packets s) > 0 then
           (case ordinary_packets s of
              (pkt, synchronous, fail_cb, will_have_more) # rest \<Rightarrow>
                (let s' = s\<lparr>ordinary_packets := rest\<rparr>
                 in ((Some pkt, None, None, fail_cb, synchronous,
                      have_more_of (Some pkt) s', will_have_more), s')))
         else if length (packet_queue (mixins s)) > 0 then
           (case packet_queue (mixins s) of
              (pkt, wid, pixels, start_send_cb, end_send_cb, fail_cb, will_have_more) # rest \<Rightarrow>
                (let s' = s\<lparr>mixins := (mixins s)\<lparr>packet_queue := rest\<rparr>\<rparr>
                 in ((Some pkt, start_send_cb, end_send_cb, fail_cb, True,
                      have_more_of (Some pkt) s', will_have_more), s')))
         else ((None, None, None, None, True, have_more_of None s, False), s))
      else ((None, None, None, None, True, False, False), s))"

text \<open>The keyword arguments \<^verbatim>\<open>send\<close> looks at; \<open>None\<close> is an absent key.\<close>

record send_kwargs =
  kw_synchronous :: "bool option"
  kw_will_have_more :: "bool option"
  kw_fail_cb :: "callback option"

definition no_kwargs :: send_kwargs where
  "no_kwargs = \<lparr>kw_synchronous = None, kw_will_have_more = None, kw_fail_cb = None\<rparr>"

definition send :: "packet \<Rightarrow> send_kwargs \<Rightarrow> session \<Rightarrow> session" where
  "send parts kwargs s =
     (let synchronous = (case kw_synchronous kwargs of None \<Rightarrow> True | Some b \<Rightarrow> b);
          will_have_more = (case kw_will_have_more kwargs of None \<Rightarrow> \<not> synchronous | Some b \<Rightarrow> b);
          fail_cb = kw_fail_cb kwargs
      in (case protocol s of
            None \<Rightarrow> s
          | Some p \<Rightarrow>
              s\<lparr>ordinary_packets := ordinary_packets s @ [(parts, synchronous, fail_cb, will_have_more)],
                source_has_more_calls := Suc (source_has_more_calls s)\<rparr>))"

definition send_more :: "packet \<Rightarrow> send_kwargs \<Rightarrow> session \<Rightarrow> session" where
  "send_more parts kwargs s = send parts (kwargs\<lparr>kw_will_have_more := Some True\<rparr>) s"

definition send_async :: "packet \<Rightarrow> send_kwargs \<Rightarrow> session \<Rightarrow> session" where
  "send_async parts kwargs s = send parts (kwargs\<lparr>kw_synchronous := Some False\<rparr>) s"

subsection \<open>Closing the session\<close>

text \<open>
  \<^verbatim>\<open>close\<close> first runs \<^verbatim>\<open>cleanup\<close> of every base class and later
  \<^verbatim>\<open>cancel_recalculate_timer\<close>. Both belong to the mixins, whose code is not part of
  this file: they are parameters, acting on the attributes the mixins own.
\<close>

definition close ::
  "(mixin_state \<Rightarrow> mixin_state) \<Rightarrow> (mixin_state \<Rightarrow> mixin_state) \<Rightarrow> session \<Rightarrow> session" where
  "close bases_cleanup cancel_recalculate_timer s =
     (let s1 = s\<lparr>mixins := bases_cleanup (mixins s)\<rparr>;
          s2 = s1\<lparr>close_event := True\<rparr>;
          s3 = s2\<lparr>mixins := (mixins s2)\<lparr>encode_work_queue := encode_work_queue (mixins s2) @ [None]\<rparr>\<rparr>;
          s4 = s3\<lparr>mixins := cancel_recalculate_timer (mixins s3)\<rparr>
      in s4\<lparr>protocol := None\<rparr>)"

subsection \<open>Idle and grace timers\<close>

text \<open>
  \<^verbatim>\<open>self.idle_grace_duration = max(10, int(self.idle_timeout*(100-GRACE_PERCENT)//100))\<close>,
  in seconds. \<^verbatim>\<open>GRACE_PERCENT\<close> is read from the environment (default 90) and is a
  parameter here.
\<close>

definition grace_duration :: "int \<Rightarrow> int \<Rightarrow> int" where
  "grace_duration GRACE_PERCENT idle_timeout_v =
     max 10 ((idle_timeout_v * (100 - GRACE_PERCENT)) div 100)"

text \<open>The truth value of a timer handle in \<^verbatim>\<open>if self.idle_timer:\<close>.\<close>

definition handle_set :: "nat option \<Rightarrow> bool" where
  "handle_set t = (case t of None \<Rightarrow> False | Some h \<Rightarrow> h \<noteq> 0)"

definition schedule_idle_timeout :: "session \<Rightarrow> session" where
  "schedule_idle_timeout s =
     (let s1 = (case idle_timer s of
                  None \<Rightarrow> s
                | Some h \<Rightarrow>
                    if handle_set (Some h)
                    then s\<lparr>loop := source_remove h (loop s), idle_timer := None\<rparr>
                    else s)
      in if idle_timeout s1 > 0 then
           (case timeout_add (idle_timeout s1 * 1000) Idle_timedout (loop s1) of
              (h, ml) \<Rightarrow> s1\<lparr>loop := ml, idle_timer := Some h\<rparr>)
         else s1)"

definition schedule_idle_grace_timeout :: "session \<Rightarrow> session" where
  "schedule_idle_grace_timeout s =
     (let s1 = (case idle_grace_timer s of
                  None \<Rightarrow> s
                | Some h \<Rightarrow>
                    if handle_set (Some h)
                    then s\<lparr>loop := source_remove h (loop s), idle_grace_timer := None\<rparr>
                    else s)
      in if idle_timeout s1 > 0 \<and> \<not> is_closed s1 then
           (let grace = idle_timeout s1 - idle_grace_duration s1
            in case timeout_add (max 0 (grace * 1000)) Idle_grace_timedout (loop s1) of
                 (h, ml) \<Rightarrow> s1\<lparr>loop := ml, idle_grace_timer := Some h\<rparr>)
         else s1)"

definition idle_grace_timedout :: "session \<Rightarrow> session" where
  "idle_grace_timedout s =
     (let s1 = s\<lparr>idle_grace_timer := None\<rparr>
      in s1\<lparr>callbacks_invoked := callbacks_invoked s1 @ [Idle_grace_timeout_cb]\<rparr>)"

definition idle_timedout :: "session \<Rightarrow> session" where
  "idle_timedout s =
     (let s1 = s\<lparr>idle_timer := None\<rparr>;
          s2 = s1\<lparr>callbacks_invoked := callbacks_invoked s1 @ [Idle_timeout_cb]\<rparr>
      in if \<not> is_closed s2 then schedule_idle_timeout s2 else s2)"

text \<open>
  The main loop runs the pending source \<open>h\<close>: both callbacks return \<^verbatim>\<open>None\<close>, so the
  source is dropped and does not repeat. A source that is not pending does nothing.
\<close>

definition fire :: "nat \<Rightarrow> session \<Rightarrow> session" where
  "fire h s =
     (case find (\<lambda>src. fst src = h) (sources (loop s)) of
        None \<Rightarrow> s
      | Some (i, delay, cb) \<Rightarrow>
          (let s1 = s\<lparr>loop := source_remove h (loop s)\<rparr>
           in case cb of
                Idle_timedout \<Rightarrow> idle_timedout s1
              | Idle_grace_timedout \<Rightarrow> idle_grace_timedout s1))"

text \<open>
  The part of \<^verbatim>\<open>__init__\<close> and \<^verbatim>\<open>init_vars\<close> that sets the attributes above. The
  state the mixins' constructors leave, the main loop and the first value of
  \<^verbatim>\<open>statistics.avg_congestion_send_speed\<close> are parameters.
\<close>

definition new_session ::
  "int \<Rightarrow> int \<Rightarrow> nat \<Rightarrow> int \<Rightarrow> int \<Rightarrow> bool \<Rightarrow> int \<Rightarrow> mixin_state \<Rightarrow> main_loop \<Rightarrow> session" where
  "new_session GRACE_PERCENT AV_SYNC_DELTA protocol_v idle_timeout_v bandwidth_limit_v av_sync_v
       speed0 m ml =
     schedule_idle_timeout (schedule_idle_grace_timeout
       \<lparr>mixins = m,
        close_event = False,
        ordinary_packets = [],
        protocol = Some protocol_v,
        source_has_more_calls = 0,
        idle_timeout = idle_timeout_v,
        idle_grace_duration = grace_duration GRACE_PERCENT idle_timeout_v,
        idle_timer = None,
        idle_grace_timer = None,
        loop = ml,
        callbacks_invoked = [],
        bandwidth_limit = bandwidth_limit_v,
        soft_bandwidth_limit = bandwidth_limit_v,
        avg_congestion_send_speed = speed0,
        av_sync = av_sync_v,
        av_sync_delay = 0,
        av_sync_delay_total = 0,
        av_sync_delta = AV_SYNC_DELTA,
        hello_sent = False,
        send_notifications = False,
        notification_callbacks = Map.empty,
        desktop_size = None\<rparr>)"

subsection \<open>Bandwidth limits\<close>

text \<open>The weight the first loop of \<^verbatim>\<open>update_bandwidth_limits\<close> gives a window.\<close>

definition weight_of :: "window_source \<Rightarrow> int" where
  "weight_of ws =
     (if \<not> ws_suspended ws then
        (case ws_window_dimensions ws of (ww, wh) \<Rightarrow> ww * wh + ws_damage_pixels ws)
      else 0)"

text \<open>The first loop: \<^verbatim>\<open>window_weight[wid] = weight\<close> for every item, the dictionary
  being an association list in insertion order.\<close>

fun window_weight ::
  "(int \<times> window_source) list \<Rightarrow> (int \<times> int) list \<Rightarrow> (int \<times> int) list" where
  "window_weight [] d = d"
| "window_weight ((wid, ws) # rest) d = window_weight rest (AList.update wid (weight_of ws) d)"

text \<open>
  The second loop. \<^verbatim>\<open>bandwidth_limit*weight//total_weight\<close> raises
  \<^verbatim>\<open>ZeroDivisionError\<close> when \<^verbatim>\<open>total_weight\<close> is 0; the windows written before
  the exception keep their new limit.
\<close>

fun assign_limits ::
  "int \<Rightarrow> (int \<times> int) list \<Rightarrow> int \<Rightarrow> (int \<times> window_source) list
     \<Rightarrow> py_error option \<times> (int \<times> window_source) list" where
  "assign_limits bl wwd tw [] = (None, [])"
| "assign_limits bl wwd tw ((wid, ws) # rest) =
     (case map_of wwd wid of
        None \<Rightarrow>
          (case assign_limits bl wwd tw rest of (e, rest') \<Rightarrow> (e, (wid, ws) # rest'))
      | Some weight \<Rightarrow>
          if tw = 0 then (Some ZeroDivisionError, (wid, ws) # rest)
          else
            (case assign_limits bl wwd tw rest of
               (e, rest') \<Rightarrow>
                 (e, (wid, ws\<lparr>ws_bandwidth_limit := max 1 (bl * weight div tw)\<rparr>) # rest')))"

text \<open>
  The first half of \<^verbatim>\<open>update_bandwidth_limits\<close>: the value it stores in
  \<^verbatim>\<open>soft_bandwidth_limit\<close>. \<^verbatim>\<open>BANDWIDTH_DETECTION\<close> is read from the
  environment (default true) and is a parameter.
\<close>

definition soft_limit_of :: "bool \<Rightarrow> session \<Rightarrow> int" where
  "soft_limit_of BANDWIDTH_DETECTION s =
     (let detected =
            (if BANDWIDTH_DETECTION then
               (if avg_congestion_send_speed s > 20 * 1024 * 1024 then 0
                else avg_congestion_send_speed s)
             else 0)
      in if bandwidth_limit s > 0 then min (bandwidth_limit s) detected else detected)"

text \<open>
  \<^verbatim>\<open>update_bandwidth_limits\<close>. The result is the exception raised, if any, and the
  session as the call leaves it.
\<close>

definition update_bandwidth_limits :: "bool \<Rightarrow> session \<Rightarrow> py_error option \<times> session" where
  "update_bandwidth_limits BANDWIDTH_DETECTION s =
     (if mmap_size (mixins s) > 0 then (None, s)
      else
        (let bl = soft_limit_of BANDWIDTH_DETECTION s;
             s1 = s\<lparr>soft_bandwidth_limit := bl\<rparr>
         in if soft_bandwidth_limit s1 \<le> 0 then (None, s1)
            else
              (let wwd = window_weight (window_sources (mixins s1)) [];
                   total_weight = sum_list (map snd wwd)
               in case assign_limits bl wwd total_weight (window_sources (mixins s1)) of
                    (e, wss) \<Rightarrow> (e, s1\<lparr>mixins := (mixins s1)\<lparr>window_sources := wss\<rparr>\<rparr>))))"

text \<open>What the specification asks of a window: \<open>max(1, floor(L * w / W))\<close>.\<close>

definition share :: "int \<Rightarrow> int \<Rightarrow> int \<Rightarrow> int" where
  "share L W w = max 1 (L * w div W)"

text \<open>The limits of the windows after a call, in the order of the dictionary.\<close>

definition limits_of :: "session \<Rightarrow> (int \<times> int) list" where
  "limits_of s = map (\<lambda>(wid, ws). (wid, ws_bandwidth_limit ws)) (window_sources (mixins s))"

definition total_weight_of :: "session \<Rightarrow> int" where
  "total_weight_of s = sum_list (map (\<lambda>(wid, ws). weight_of ws) (window_sources (mixins s)))"

subsection \<open>Audio and video synchronisation\<close>

text \<open>
  \<^verbatim>\<open>update_av_sync_delay_total\<close>. The value of \<^verbatim>\<open>get_sound_source_latency()\<close> (a
  method of the audio mixin) and the method \<^verbatim>\<open>set_av_sync_delay\<close> of a window source
  are parameters.
\<close>

definition update_av_sync_delay_total ::
  "int \<Rightarrow> (int \<Rightarrow> window_source \<Rightarrow> window_source) \<Rightarrow> session \<Rightarrow> session" where
  "update_av_sync_delay_total encoder_latency ws_set_av_sync_delay s =
     (let s1 =
            (if av_sync s then
               s\<lparr>av_sync_delay_total :=
                    min 1000 (max 0 (av_sync_delay s + av_sync_delta s + encoder_latency))\<rparr>
             else s\<lparr>av_sync_delay_total := 0\<rparr>)
      in s1\<lparr>mixins := (mixins s1)\<lparr>window_sources :=
              map (\<lambda>(wid, ws). (wid, ws_set_av_sync_delay (av_sync_delay_total s1) ws))
                (window_sources (mixins s1))\<rparr>\<rparr>)"

definition set_av_sync_delta ::
  "int \<Rightarrow> (int \<Rightarrow> window_source \<Rightarrow> window_source) \<Rightarrow> int \<Rightarrow> session \<Rightarrow> session" where
  "set_av_sync_delta encoder_latency ws_set_av_sync_delay delta s =
     update_av_sync_delay_total encoder_latency ws_set_av_sync_delay (s\<lparr>av_sync_delta := delta\<rparr>)"

definition set_av_sync_delay ::
  "int \<Rightarrow> (int \<Rightarrow> window_source \<Rightarrow> window_source) \<Rightarrow> int \<Rightarrow> session \<Rightarrow> session" where
  "set_av_sync_delay encoder_latency ws_set_av_sync_delay v s =
     update_av_sync_delay_total encoder_latency ws_set_av_sync_delay (s\<lparr>av_sync_delay := v\<rparr>)"

text \<open>The clamp of the specification.\<close>

definition clamp :: "int \<Rightarrow> int \<Rightarrow> int \<Rightarrow> int" where
  "clamp x lo hi = (if x < lo then lo else if x > hi then hi else x)"

subsection \<open>Capability negotiation: the desktop size\<close>

text \<open>
  The lines of \<^verbatim>\<open>parse_hello\<close> that set \<^verbatim>\<open>desktop_size\<close>. The argument is what
  \<^verbatim>\<open>c.intpair("desktop_size")\<close> returns: a pair of integers or \<^verbatim>\<open>None\<close>.
\<close>

definition parse_hello_desktop_size :: "(int \<times> int) option \<Rightarrow> session \<Rightarrow> session" where
  "parse_hello_desktop_size intpair_desktop_size s =
     (let s1 = s\<lparr>desktop_size := intpair_desktop_size\<rparr>
      in case desktop_size s1 of
           None \<Rightarrow> s1
         | Some (w, h) \<Rightarrow>
             if w \<le> 0 \<or> h \<le> 0 \<or> w \<ge> 32768 \<or> h \<ge> 32768
             then s1\<lparr>desktop_size := None\<rparr>
             else s1)"

subsection \<open>Notifications\<close>

record notify_args =
  dbus_id :: pyval
  nid :: int
  app_name :: pyval
  replaces_nid :: pyval
  app_icon :: pyval
  summary :: pyval
  body :: pyval
  actions :: pyval
  hints :: pyval
  expire_timeout :: pyval
  icon :: pyval

text \<open>
  \<^verbatim>\<open>try: x = x.encode("utf8") except: x = str(x)\<close>; the two built-ins are parameters,
  \<open>None\<close> from the first being an exception.
\<close>

definition to_utf8 :: "(pyval \<Rightarrow> pyval option) \<Rightarrow> (pyval \<Rightarrow> pyval) \<Rightarrow> pyval \<Rightarrow> pyval" where
  "to_utf8 encode_utf8 py_str x = (case encode_utf8 x of Some b \<Rightarrow> b | None \<Rightarrow> py_str x)"

definition notify_show_packet ::
  "(pyval \<Rightarrow> pyval option) \<Rightarrow> (pyval \<Rightarrow> pyval) \<Rightarrow> notify_args \<Rightarrow> packet" where
  "notify_show_packet encode_utf8 py_str a =
     [PyStr ''notify_show'', dbus_id a, PyInt (nid a), app_name a, replaces_nid a, app_icon a,
      to_utf8 encode_utf8 py_str (summary a), to_utf8 encode_utf8 py_str (body a),
      expire_timeout a, icon a, actions a, hints a]"

definition notify ::
  "(pyval \<Rightarrow> pyval option) \<Rightarrow> (pyval \<Rightarrow> pyval) \<Rightarrow> notify_args \<Rightarrow> callback option
     \<Rightarrow> session \<Rightarrow> bool \<times> session" where
  "notify encode_utf8 py_str a user_callback s =
     (if \<not> send_notifications s then (False, s)
      else if suspended (mixins s) then (False, s)
      else
        (let s1 = (case user_callback of
                     None \<Rightarrow> s
                   | Some cb \<Rightarrow>
                       s\<lparr>notification_callbacks := (notification_callbacks s)(nid a \<mapsto> cb)\<rparr>);
             s2 = (if hello_sent s1
                   then send_async (notify_show_packet encode_utf8 py_str a) no_kwargs s1
                   else s1)
         in (True, s2)))"

definition notify_close :: "int \<Rightarrow> session \<Rightarrow> session" where
  "notify_close n s =
     (if \<not> send_notifications s \<or> suspended (mixins s) \<or> \<not> hello_sent s then s
      else send_more [PyStr ''notify_close'', PyInt n] no_kwargs s)"

subsection \<open>Example sessions\<close>

text \<open>A session as the constructor leaves it: idle timeout 60 seconds, no bandwidth limit,
  no window yet, the main loop empty before.\<close>

definition example_mixins :: mixin_state where
  "example_mixins =
     \<lparr>packet_queue = [], encode_work_queue = [], window_sources = [], mmap_size = 0,
      suspended = False\<rparr>"

definition example_loop :: main_loop where
  "example_loop = \<lparr>sources = [], next_source_id = 1\<rparr>"

definition example_session :: session where
  "example_session = new_session 90 0 1 60 0 True 0 example_mixins example_loop"

text \<open>One control packet and one encoded payload are waiting.\<close>

definition scheduler_example :: session where
  "scheduler_example =
     example_session
       \<lparr>mixins := example_mixins
          \<lparr>packet_queue := [([PyStr ''draw''], 1, 100, None, None, None, False)]\<rparr>,
        ordinary_packets := [([PyStr ''ping''], True, None, False)]\<rparr>"

text \<open>A window source with nothing damaged and no limit yet.\<close>

definition window :: "bool \<Rightarrow> int \<Rightarrow> int \<Rightarrow> window_source" where
  "window susp w h =
     \<lparr>ws_suspended = susp, ws_window_dimensions = (w, h), ws_damage_pixels = 0,
      ws_bandwidth_limit = 0, ws_av_sync_delay = 0\<rparr>"

text \<open>The session with the given windows and an observed send speed of 1000.\<close>

definition bandwidth_example :: "(int \<times> window_source) list \<Rightarrow> session" where
  "bandwidth_example wss =
     example_session
       \<lparr>mixins := example_mixins\<lparr>window_sources := wss\<rparr>,
        avg_congestion_send_speed := 1000\<rparr>"

text \<open>The client has negotiated notifications; the hello packet is not sent yet.\<close>

definition notification_example :: session where
  "notification_example = example_session\<lparr>send_notifications := True\<rparr>"

definition example_notification :: notify_args where
  "example_notification =
     \<lparr>dbus_id = PyStr [], nid = 7, app_name = PyStr ''Xpra'', replaces_nid = PyInt 0,
      app_icon = PyStr [], summary = PyStr ''idle'', body = PyStr ''about to disconnect'',
      actions = PyTuple [], hints = PyTuple [], expire_timeout = PyInt 10000,
      icon = PyNone\<rparr>"

text \<open>Windows for the bandwidth allocator: the only window suspended; two windows of
  weight 100 and 300; an active and a suspended window; a large window beside two tiny ones.\<close>

definition all_suspended_example :: session where
  "all_suspended_example = bandwidth_example [(1, window True 100 100)]"



definition crowded_example :: session where
  "crowded_example =
     bandwidth_example
       [(1, window False 1000 1000), (2, window False 1 1), (3, window False 1 1)]"

text \<open>The same client once the hello packet is sent.\<close>

definition hello_sent_example :: session where
  "hello_sent_example = notification_example\<lparr>hello_sent := True\<rparr>"

section \<open>Properties\<close>

subsection \<open>The example sessions, evaluated\<close>

lemma example_session_eq:
  "example_session =
     \<lparr>mixins = example_mixins,
      close_event = False,
      ordinary_packets = [],
      protocol = Some 1,
      source_has_more_calls = 0,
      idle_timeout = 60,
      idle_grace_duration = 10,
      idle_timer = Some 2,
      idle_grace_timer = Some 1,
      loop = \<lparr>sources = [(1, 50000, Idle_grace_timedout), (2, 60000, Idle_timedout)],
              next_source_id = 3\<rparr>,
      callbacks_invoked = [],
      bandwidth_limit = 0,
      soft_bandwidth_limit = 0,
      avg_congestion_send_speed = 0,
      av_sync = True,
      av_sync_delay = 0,
      av_sync_delay_total = 0,
      av_sync_delta = 0,
      hello_sent = False,
      send_notifications = False,
      notification_callbacks = Map.empty,
      desktop_size = None\<rparr>"
  by (simp add: example_session_def new_session_def schedule_idle_timeout_def
      schedule_idle_grace_timeout_def grace_duration_def timeout_add_def is_closed_def
      example_loop_def Let_def numeral_2_eq_2 numeral_3_eq_3)

subsection \<open>The packet scheduler\<close>

text \<open>
  Claim C1. In an open session \<^verbatim>\<open>next_packet\<close> returns and removes the front entry of
  \<^verbatim>\<open>ordinary_packets\<close> whenever that list is not empty, with \<^verbatim>\<open>have_more\<close> telling
  whether anything is left in either queue; and whenever the call takes an entry out of
  \<^verbatim>\<open>packet_queue\<close>, \<^verbatim>\<open>ordinary_packets\<close> was empty.
\<close>

theorem next_packet_ordinary_first:
  assumes "\<not> is_closed s"
  shows "(\<forall>pkt sync fcb whm rest.
            ordinary_packets s = (pkt, sync, fcb, whm) # rest \<longrightarrow>
            next_packet s =
              ((Some pkt, None, None, fcb, sync,
                (rest \<noteq> [] \<or> packet_queue (mixins s) \<noteq> []), whm),
               s\<lparr>ordinary_packets := rest\<rparr>))
       \<and> (packet_queue (mixins (snd (next_packet s))) \<noteq> packet_queue (mixins s) \<longrightarrow>
            ordinary_packets s = [])"
  using assms
  by (auto simp: next_packet_def have_more_of_def Let_def split: list.splits)

theorem next_packet_ordinary_first_witness:
  "\<not> is_closed scheduler_example
   \<and> next_packet scheduler_example =
       ((Some [PyStr ''ping''], None, None, None, True, True, False),
        scheduler_example\<lparr>ordinary_packets := []\<rparr>)"
proof -
  have opened: "\<not> is_closed scheduler_example"
    by (simp add: scheduler_example_def example_session_eq is_closed_def)
  have ord: "ordinary_packets scheduler_example = ([PyStr ''ping''], True, None, False) # []"
    by (simp add: scheduler_example_def)
  have bulk: "packet_queue (mixins scheduler_example) \<noteq> []"
    by (simp add: scheduler_example_def)
  from next_packet_ordinary_first [OF opened, THEN conjunct1, rule_format, OF ord] bulk opened
  show ?thesis
    by simp
qed

text \<open>
  Claim C10. Once \<^verbatim>\<open>close\<close> has cleared the protocol reference, \<^verbatim>\<open>send\<close>,
  \<^verbatim>\<open>send_more\<close> and \<^verbatim>\<open>send_async\<close> leave the session as it is: nothing is appended to
  \<^verbatim>\<open>ordinary_packets\<close>, \<^verbatim>\<open>source_has_more\<close> is not called, and no branch of
  \<^verbatim>\<open>send\<close> raises.
\<close>

theorem send_after_close_noop:
  "(protocol s = None \<longrightarrow>
      send parts kw s = s \<and> send_more parts kw s = s \<and> send_async parts kw s = s)
   \<and> protocol (close bases_cleanup cancel_recalculate_timer s) = None
   \<and> send parts kw (close bases_cleanup cancel_recalculate_timer s)
     = close bases_cleanup cancel_recalculate_timer s
   \<and> send_more parts kw (close bases_cleanup cancel_recalculate_timer s)
     = close bases_cleanup cancel_recalculate_timer s
   \<and> send_async parts kw (close bases_cleanup cancel_recalculate_timer s)
     = close bases_cleanup cancel_recalculate_timer s
   \<and> ordinary_packets (send parts kw (close bases_cleanup cancel_recalculate_timer s))
     = ordinary_packets s
   \<and> source_has_more_calls (send parts kw (close bases_cleanup cancel_recalculate_timer s))
     = source_has_more_calls s"
  by (simp add: send_def send_more_def send_async_def close_def Let_def)

text \<open>Before \<^verbatim>\<open>close\<close> a packet is queued and the protocol is woken; after it neither
  happens.\<close>

theorem send_after_close_noop_witness:
  "ordinary_packets (send [PyStr ''ping''] no_kwargs example_session) =
     [([PyStr ''ping''], True, None, False)]
   \<and> source_has_more_calls (send [PyStr ''ping''] no_kwargs example_session) = 1
   \<and> protocol (close id id example_session) = None
   \<and> send [PyStr ''ping''] no_kwargs (close id id example_session) = close id id example_session
   \<and> ordinary_packets (send [PyStr ''ping''] no_kwargs (close id id example_session)) = []
   \<and> source_has_more_calls (send [PyStr ''ping''] no_kwargs (close id id example_session)) = 0"
proof -
  have before: "ordinary_packets (send [PyStr ''ping''] no_kwargs example_session) =
       [([PyStr ''ping''], True, None, False)]
     \<and> source_has_more_calls (send [PyStr ''ping''] no_kwargs example_session) = 1"
    by (simp add: send_def no_kwargs_def example_session_eq)
  have closed: "protocol (close id id example_session) = None"
    by (simp add: close_def Let_def)
  have vals: "ordinary_packets (close id id example_session) = []"
    "source_has_more_calls (close id id example_session) = 0"
    by (simp_all add: close_def Let_def example_session_eq)
  have "send [PyStr ''ping''] no_kwargs (close id id example_session) =
          close id id example_session"
    using send_after_close_noop [where s = "close id id example_session"
        and parts = "[PyStr ''ping'']" and kw = no_kwargs, THEN conjunct1, rule_format, OF closed]
    by simp
  with before closed vals show ?thesis
    by simp
qed

subsection \<open>Bandwidth limits\<close>

lemma bandwidth_example_soft_limit: "soft_limit_of True (bandwidth_example wss) = 1000"
  by (simp add: soft_limit_of_def bandwidth_example_def example_session_eq)

lemmas bandwidth_example_unfold =
  bandwidth_example_def example_session_eq example_mixins_def window_def weight_of_def

text \<open>A key that is not in the dictionary yet goes to its end.\<close>

lemma update_fresh: "k \<notin> fst ` set d \<Longrightarrow> AList.update k v d = d @ [(k, v)]"
  by (induction d) auto

text \<open>With the keys of a dictionary distinct, the first loop maps every window to its
  weight.\<close>

lemma window_weight_distinct:
  "distinct (map fst items) \<Longrightarrow> fst ` set items \<inter> fst ` set d = {} \<Longrightarrow>
   window_weight items d = d @ map (\<lambda>(wid, ws). (wid, weight_of ws)) items"
proof (induction items d rule: window_weight.induct)
  case (1 d)
  then show ?case by simp
next
  case (2 wid ws rest d)
  have fresh: "wid \<notin> fst ` set d" using 2(3) by auto
  have "fst ` set rest \<inter> fst ` set (d @ [(wid, weight_of ws)]) = {}"
    using 2(2,3) by (auto simp: image_iff)
  with 2 fresh show ?case by (simp add: update_fresh)
qed

lemma map_of_weights:
  "distinct (map fst items) \<Longrightarrow> (wid, ws) \<in> set items \<Longrightarrow>
   map_of (map (\<lambda>(wid, ws). (wid, weight_of ws)) items) wid = Some (weight_of ws)"
  by (induction items) (auto simp: image_iff)

lemma assign_limits_ok:
  "tw \<noteq> 0 \<Longrightarrow> \<forall>(wid, ws) \<in> set items. map_of wwd wid = Some (weight_of ws) \<Longrightarrow>
   assign_limits bl wwd tw items =
     (None, map (\<lambda>(wid, ws). (wid, ws\<lparr>ws_bandwidth_limit := share bl tw (weight_of ws)\<rparr>)) items)"
  by (induction items) (auto simp: share_def)

lemma sum_weights:
  "sum_list (map snd (map (\<lambda>(wid, ws). (wid, weight_of ws)) items)) =
   sum_list (map (\<lambda>(wid, ws). weight_of ws) items)"
  by (induction items) auto

text \<open>What a call does when the soft limit is positive and the total weight is not 0.\<close>

lemma update_bandwidth_limits_ok:
  assumes "distinct (map fst (window_sources (mixins s)))"
    and "mmap_size (mixins s) \<le> 0"
    and "0 < soft_limit_of bd s"
    and "total_weight_of s \<noteq> 0"
  shows "update_bandwidth_limits bd s =
     (None, s\<lparr>soft_bandwidth_limit := soft_limit_of bd s,
              mixins := (mixins s)\<lparr>window_sources :=
                map (\<lambda>(wid, ws). (wid, ws\<lparr>ws_bandwidth_limit :=
                       share (soft_limit_of bd s) (total_weight_of s) (weight_of ws)\<rparr>))
                  (window_sources (mixins s))\<rparr>\<rparr>)"
proof -
  let ?items = "window_sources (mixins s)"
  have ww: "window_weight ?items [] = map (\<lambda>(wid, ws). (wid, weight_of ws)) ?items"
    using window_weight_distinct[OF assms(1), of "[]"] by simp
  have tw: "sum_list (map snd (window_weight ?items [])) = total_weight_of s"
    by (simp only: ww sum_weights total_weight_of_def)
  have look: "\<forall>(wid, ws) \<in> set ?items. map_of (window_weight ?items []) wid = Some (weight_of ws)"
    using map_of_weights[OF assms(1)] by (auto simp: ww)
  show ?thesis
    using assms(2,3)
    by (simp add: update_bandwidth_limits_def Let_def tw assign_limits_ok[OF assms(4) look])
qed

text \<open>Floors of shares add up to at most the floor of the whole.\<close>

lemma div_add_le: "(0::int) < W \<Longrightarrow> a div W + b div W \<le> (a + b) div W"
proof -
  assume W: "0 < W"
  have "(a + b) div W = a div W + b div W + (a mod W + b mod W) div W"
    by (rule div_add1_eq)
  moreover have "0 \<le> (a mod W + b mod W) div W"
    using W by (simp add: pos_imp_zdiv_nonneg_iff)
  ultimately show ?thesis by linarith
qed

lemma sum_floor_le:
  "(0::int) < W \<Longrightarrow> sum_list (map (\<lambda>w. L * w div W) ws) \<le> L * sum_list ws div W"
proof (induction ws)
  case Nil
  then show ?case by simp
next
  case (Cons w ws)
  have "L * w div W + sum_list (map (\<lambda>w. L * w div W) ws) \<le> L * w div W + L * sum_list ws div W"
    using Cons by simp
  also have "\<dots> \<le> (L * w + L * sum_list ws) div W"
    using Cons.prems by (rule div_add_le)
  finally show ?case by (simp add: distrib_left)
qed

text \<open>Raising a share to 1 costs at most one unit for each window whose share was 0.\<close>

lemma sum_share_le:
  assumes "(0::int) < W" "0 \<le> L" "\<forall>w \<in> set ws. 0 \<le> w"
  shows "sum_list (map (share L W) ws) \<le>
         sum_list (map (\<lambda>w. L * w div W) ws) + int (length (filter (\<lambda>w. L * w div W < 1) ws))"
  using assms(3)
proof (induction ws)
  case Nil
  then show ?case by simp
next
  case (Cons w ws)
  have "0 \<le> L * w div W"
    using assms(1,2) Cons.prems by (simp add: pos_imp_zdiv_nonneg_iff)
  then have "share L W w \<le> L * w div W + (if L * w div W < 1 then 1 else 0)"
    by (simp add: share_def)
  moreover have "sum_list (map (share L W) ws) \<le>
         sum_list (map (\<lambda>w. L * w div W) ws) + int (length (filter (\<lambda>w. L * w div W < 1) ws))"
    using Cons by simp
  ultimately show ?case by (cases "L * w div W < 1") simp_all
qed

text \<open>
  Claim C2. With a positive soft limit and a total weight of 0, the call is to write no
  limit and raise nothing. It does so when no window is registered; with a window
  registered (here the only one, suspended) the division raises
  \<^verbatim>\<open>ZeroDivisionError\<close> after \<^verbatim>\<open>soft_bandwidth_limit\<close> has been stored.
\<close>

theorem update_bandwidth_limits_zero_weight_raises:
  "0 < soft_limit_of True all_suspended_example
   \<and> total_weight_of all_suspended_example = 0
   \<and> update_bandwidth_limits True all_suspended_example =
       (Some ZeroDivisionError, all_suspended_example\<lparr>soft_bandwidth_limit := 1000\<rparr>)
   \<and> update_bandwidth_limits True (bandwidth_example []) =
       (None, (bandwidth_example [])\<lparr>soft_bandwidth_limit := 1000\<rparr>)"
  by (simp add: update_bandwidth_limits_def bandwidth_example_soft_limit Let_def
      total_weight_of_def all_suspended_example_def)
    (simp add: bandwidth_example_unfold)


lemma crowded_pre:
  "distinct (map fst (window_sources (mixins crowded_example)))"
  "mmap_size (mixins crowded_example) \<le> 0"
  "0 < soft_limit_of True crowded_example"
  "0 < total_weight_of crowded_example"
  "\<forall>(wid, ws) \<in> set (window_sources (mixins crowded_example)). 0 \<le> weight_of ws"
  by (simp_all add: crowded_example_def bandwidth_example_soft_limit total_weight_of_def)
     (simp_all add: bandwidth_example_unfold)




text \<open>
  Claim C4, as the code has it. With a soft limit \<open>L > 0\<close>, a total weight \<open>W > 0\<close> and no
  negative weight, every limit the call writes is at least 1, and the limits add up to at
  most \<open>L\<close> plus the number of windows whose share \<open>floor(L * w / W)\<close> is 0: each of those
  is raised to 1. When no share is 0 the sum is at most \<open>L\<close>.
\<close>

theorem limits_floor_and_slack:
  assumes "distinct (map fst (window_sources (mixins s)))"
    and "mmap_size (mixins s) \<le> 0"
    and "0 < soft_limit_of bd s"
    and "0 < total_weight_of s"
    and "\<forall>(wid, ws) \<in> set (window_sources (mixins s)). 0 \<le> weight_of ws"
  shows "fst (update_bandwidth_limits bd s) = None
       \<and> soft_bandwidth_limit (snd (update_bandwidth_limits bd s)) = soft_limit_of bd s
       \<and> (\<forall>(wid, l) \<in> set (limits_of (snd (update_bandwidth_limits bd s))). 1 \<le> l)
       \<and> sum_list (map snd (limits_of (snd (update_bandwidth_limits bd s))))
           \<le> soft_limit_of bd s
             + int (length (filter
                 (\<lambda>(wid, ws). soft_limit_of bd s * weight_of ws div total_weight_of s < 1)
                 (window_sources (mixins s))))"
proof -
  let ?L = "soft_limit_of bd s" and ?W = "total_weight_of s"
  let ?items = "window_sources (mixins s)"
  let ?weights = "map (\<lambda>(wid, ws). weight_of ws) ?items"
  have W0: "?W \<noteq> 0" using assms(4) by simp
  note ok = update_bandwidth_limits_ok [OF assms(1,2,3) W0]
  have lim: "limits_of (snd (update_bandwidth_limits bd s)) =
               map (\<lambda>(wid, ws). (wid, share ?L ?W (weight_of ws))) ?items"
    by (simp add: ok limits_of_def split_def)
  have sum_eq: "sum_list (map snd (limits_of (snd (update_bandwidth_limits bd s)))) =
                  sum_list (map (share ?L ?W) ?weights)"
    by (simp add: lim split_def comp_def)
  have nonneg: "\<forall>w \<in> set ?weights. 0 \<le> w"
    using assms(5) by auto
  have L0: "0 \<le> ?L" using assms(3) by simp
  have "sum_list (map (share ?L ?W) ?weights) \<le>
          sum_list (map (\<lambda>w. ?L * w div ?W) ?weights)
          + int (length (filter (\<lambda>w. ?L * w div ?W < 1) ?weights))"
    by (rule sum_share_le [OF assms(4) L0 nonneg])
  also have "sum_list (map (\<lambda>w. ?L * w div ?W) ?weights) \<le> ?L * sum_list ?weights div ?W"
    by (rule sum_floor_le [OF assms(4)])
  also have "?L * sum_list ?weights div ?W = ?L"
    using assms(4) by (simp add: total_weight_of_def)
  also have "length (filter (\<lambda>w. ?L * w div ?W < 1) ?weights) =
             length (filter (\<lambda>(wid, ws). ?L * weight_of ws div ?W < 1) ?items)"
    by (simp add: filter_map comp_def split_def)
  finally have bound: "sum_list (map (share ?L ?W) ?weights) \<le>
      ?L + int (length (filter (\<lambda>(wid, ws). ?L * weight_of ws div ?W < 1) ?items))"
    by simp
  have floor: "\<forall>(wid, l) \<in> set (limits_of (snd (update_bandwidth_limits bd s))). 1 \<le> l"
    by (auto simp: lim share_def)
  show ?thesis
    using bound floor by (simp add: sum_eq) (simp add: ok)
qed

text \<open>A window of a million pixels beside two of one pixel, soft limit 1000: the limits
  are 999, 1 and 1, within 1000 plus the two shares that were 0.\<close>

theorem limits_floor_and_slack_witness:
  "soft_limit_of True crowded_example = 1000
   \<and> total_weight_of crowded_example = 1000002
   \<and> fst (update_bandwidth_limits True crowded_example) = None
   \<and> limits_of (snd (update_bandwidth_limits True crowded_example)) = [(1, 999), (2, 1), (3, 1)]
   \<and> sum_list (map snd (limits_of (snd (update_bandwidth_limits True crowded_example))))
       \<le> 1000 + 2"
proof -
  have sl: "soft_limit_of True crowded_example = 1000"
    by (simp add: crowded_example_def bandwidth_example_soft_limit)
  have tw: "total_weight_of crowded_example = 1000002"
    by (simp add: crowded_example_def total_weight_of_def) (simp add: bandwidth_example_unfold)
  have ws: "window_sources (mixins crowded_example) =
      [(1, window False 1000 1000), (2, window False 1 1), (3, window False 1 1)]"
    by (simp add: crowded_example_def bandwidth_example_def)
  have lims: "limits_of (snd (update_bandwidth_limits True crowded_example)) =
      [(1, 999), (2, 1), (3, 1)]"
    by (simp add: update_bandwidth_limits_def bandwidth_example_soft_limit Let_def limits_of_def
        crowded_example_def)
      (simp add: bandwidth_example_unfold)
  have cnt: "length (filter (\<lambda>(wid, ws). soft_limit_of True crowded_example * weight_of ws
                 div total_weight_of crowded_example < 1)
               (window_sources (mixins crowded_example))) = 2"
    by (simp add: sl tw ws window_def weight_of_def)
  from limits_floor_and_slack [OF crowded_pre] show ?thesis
    by (simp add: sl tw lims cnt)
qed

text \<open>The same three windows: the limits add up to 1001, more than the soft limit 1000.\<close>

theorem limits_overcommit:
  "soft_limit_of True crowded_example = 1000
   \<and> 0 < total_weight_of crowded_example
   \<and> fst (update_bandwidth_limits True crowded_example) = None
   \<and> limits_of (snd (update_bandwidth_limits True crowded_example)) = [(1, 999), (2, 1), (3, 1)]
   \<and> soft_bandwidth_limit (snd (update_bandwidth_limits True crowded_example)) = 1000
   \<and> \<not> sum_list (map snd (limits_of (snd (update_bandwidth_limits True crowded_example))))
         \<le> soft_bandwidth_limit (snd (update_bandwidth_limits True crowded_example))"
  by (simp add: update_bandwidth_limits_def bandwidth_example_soft_limit Let_def limits_of_def
        crowded_example_def total_weight_of_def)
      (simp add: bandwidth_example_unfold)

subsection \<open>Idle and grace timers\<close>

lemma new_session_grace:
  "idle_grace_duration (new_session GP d p t b a sp m ml) = grace_duration GP t"
  by (simp add: new_session_def schedule_idle_timeout_def schedule_idle_grace_timeout_def Let_def
      timeout_add_def split: option.splits prod.splits)

text \<open>
  Claim C5, as the code has it. For an idle timeout \<open>t > 0\<close> (in seconds) the constructor
  sets the grace duration to \<open>max(10, floor(t * (100 - GRACE_PERCENT) / 100))\<close> seconds,
  which is at least 10; with \<^verbatim>\<open>GRACE_PERCENT\<close> at its default 90 it is below the idle
  timeout exactly when the idle timeout is above 10 seconds.
\<close>

theorem grace_duration_bounds:
  assumes "0 < t"
  shows "idle_grace_duration (new_session GP d p t b a sp m ml) = max 10 (t * (100 - GP) div 100)
       \<and> 10 \<le> idle_grace_duration (new_session GP d p t b a sp m ml)
       \<and> (idle_grace_duration (new_session 90 d p t b a sp m ml) < t \<longleftrightarrow> 10 < t)"
  using assms by (auto simp: new_session_grace grace_duration_def)

text \<open>An idle timeout of 60 seconds: the grace duration is 10 seconds, the grace timer is
  set to 50 seconds and the idle timer to 60.\<close>

theorem grace_duration_bounds_witness:
  "(0::int) < 60
   \<and> idle_grace_duration example_session = 10
   \<and> idle_grace_duration example_session < 60
   \<and> sources (loop example_session) = [(1, 50000, Idle_grace_timedout), (2, 60000, Idle_timedout)]"
proof -
  have pos: "(0::int) < 60" by simp
  from grace_duration_bounds [OF pos, of 90 0 1 0 True 0 example_mixins example_loop]
  show ?thesis
    by (simp add: example_session_def [symmetric]) (simp add: example_session_eq)
qed

text \<open>An idle timeout of 5 seconds: the grace duration is 10 seconds, not below the idle
  timeout, and \<^verbatim>\<open>max(0, ...)\<close> sets the grace timer to 0 ms.\<close>

theorem grace_not_below_short_idle_timeout:
  "(0::int) < 5
   \<and> idle_grace_duration (new_session 90 0 1 5 0 True 0 example_mixins example_loop) = 10
   \<and> \<not> idle_grace_duration (new_session 90 0 1 5 0 True 0 example_mixins example_loop) < 5
   \<and> sources (loop (new_session 90 0 1 5 0 True 0 example_mixins example_loop)) =
       [(1, 0, Idle_grace_timedout), (2, 5000, Idle_timedout)]"
  by (simp add: new_session_def schedule_idle_timeout_def
      schedule_idle_grace_timeout_def grace_duration_def timeout_add_def is_closed_def
      example_loop_def Let_def numeral_2_eq_2)

subsection \<open>Closing the session\<close>

lemma closed_example:
  "close id id example_session =
     example_session\<lparr>mixins := example_mixins\<lparr>encode_work_queue := [None]\<rparr>,
                     close_event := True, protocol := None\<rparr>"
  by (simp add: close_def Let_def example_session_eq example_mixins_def)

text \<open>
  Claim C6, as the code has it. \<^verbatim>\<open>close\<close> marks the session closed, so that
  \<^verbatim>\<open>next_packet\<close> returns the empty tuple, appends one \<^verbatim>\<open>None\<close> to
  \<^verbatim>\<open>encode_work_queue\<close> (as the mixins' \<^verbatim>\<open>cleanup\<close> left it;
  \<^verbatim>\<open>cancel_recalculate_timer\<close> is taken not to touch the queue) and clears the protocol
  reference. It does not cancel the idle or the grace timer: both handles and the main
  loop's sources are as before, and a timer that fires after \<^verbatim>\<open>close\<close> still calls its
  callback. \<^verbatim>\<open>idle_timedout\<close> then does not set the idle timer again, and
  \<^verbatim>\<open>schedule_idle_grace_timeout\<close> on the closed session only removes a grace timer that
  is set: it adds no source to the main loop.
\<close>

theorem close_effects:
  assumes "\<forall>m. encode_work_queue (crt m) = encode_work_queue m"
  shows "is_closed (close bc crt s)
       \<and> next_packet (close bc crt s) =
           ((None, None, None, None, True, False, False), close bc crt s)
       \<and> encode_work_queue (mixins (close bc crt s)) = encode_work_queue (bc (mixins s)) @ [None]
       \<and> protocol (close bc crt s) = None
       \<and> idle_timer (close bc crt s) = idle_timer s
       \<and> idle_grace_timer (close bc crt s) = idle_grace_timer s
       \<and> loop (close bc crt s) = loop s
       \<and> callbacks_invoked (close bc crt s) = callbacks_invoked s
       \<and> callbacks_invoked (idle_timedout (close bc crt s)) = callbacks_invoked s @ [Idle_timeout_cb]
       \<and> callbacks_invoked (idle_grace_timedout (close bc crt s)) =
           callbacks_invoked s @ [Idle_grace_timeout_cb]
       \<and> idle_timer (idle_timedout (close bc crt s)) = None
       \<and> loop (idle_timedout (close bc crt s)) = loop s
       \<and> idle_grace_timer (schedule_idle_grace_timeout (close bc crt s)) =
           (if handle_set (idle_grace_timer s) then None else idle_grace_timer s)
       \<and> loop (schedule_idle_grace_timeout (close bc crt s)) =
           (case idle_grace_timer s of
              None \<Rightarrow> loop s
            | Some h \<Rightarrow> if handle_set (Some h) then source_remove h (loop s) else loop s)"
  using assms
  by (simp add: close_def Let_def is_closed_def next_packet_def idle_timedout_def
      idle_grace_timedout_def schedule_idle_grace_timeout_def split: option.splits)

theorem close_effects_witness:
  "(\<forall>m. encode_work_queue (id m) = encode_work_queue m)
   \<and> is_closed (close id id example_session)
   \<and> next_packet (close id id example_session) =
       ((None, None, None, None, True, False, False), close id id example_session)
   \<and> encode_work_queue (mixins (close id id example_session)) = [None]
   \<and> protocol (close id id example_session) = None
   \<and> idle_timer (close id id example_session) = Some 2
   \<and> idle_grace_timer (close id id example_session) = Some 1
   \<and> sources (loop (close id id example_session)) =
       [(1, 50000, Idle_grace_timedout), (2, 60000, Idle_timedout)]
   \<and> callbacks_invoked (idle_timedout (close id id example_session)) = [Idle_timeout_cb]
   \<and> idle_timer (idle_timedout (close id id example_session)) = None
   \<and> sources (loop (idle_timedout (close id id example_session))) =
       [(1, 50000, Idle_grace_timedout), (2, 60000, Idle_timedout)]
   \<and> 0 < idle_timeout (close id id example_session)
   \<and> idle_grace_timer (schedule_idle_grace_timeout (close id id example_session)) = None
   \<and> sources (loop (schedule_idle_grace_timeout (close id id example_session))) =
       [(2, 60000, Idle_timedout)]"
proof -
  have frame: "\<forall>m. encode_work_queue (id m) = encode_work_queue m" by simp
  have vals:
    "idle_timer example_session = Some 2"
    "idle_grace_timer example_session = Some 1"
    "loop example_session =
       \<lparr>sources = [(1, 50000, Idle_grace_timedout), (2, 60000, Idle_timedout)],
        next_source_id = 3\<rparr>"
    "callbacks_invoked example_session = []"
    "encode_work_queue (mixins example_session) = []"
    by (simp_all add: example_session_eq example_mixins_def)
  have t: "0 < idle_timeout (close id id example_session)"
    by (simp add: close_def Let_def example_session_eq)
  from close_effects [where crt = id and bc = id and s = example_session, OF frame] frame t
  show ?thesis
    by (simp add: vals handle_set_def source_remove_def)
qed

text \<open>The session built with an idle timeout of 60 seconds is closed at once: both timers
  are still pending, and when the main loop runs them the idle callback and the grace
  callback are called.\<close>

theorem idle_timer_fires_after_close:
  "idle_timer (close id id example_session) = Some 2
   \<and> sources (loop (close id id example_session)) =
       [(1, 50000, Idle_grace_timedout), (2, 60000, Idle_timedout)]
   \<and> callbacks_invoked (close id id example_session) = []
   \<and> callbacks_invoked (fire 2 (close id id example_session)) = [Idle_timeout_cb]
   \<and> callbacks_invoked (fire 1 (fire 2 (close id id example_session))) =
       [Idle_timeout_cb, Idle_grace_timeout_cb]"
  by (simp add: closed_example)
     (simp add: example_session_eq fire_def source_remove_def idle_timedout_def
        idle_grace_timedout_def is_closed_def Let_def)

subsection \<open>Audio and video synchronisation\<close>

text \<open>
  Claim C7. \<^verbatim>\<open>update_av_sync_delay_total\<close> sets the total to 0 when av-sync is disabled
  and to the sum of client delay, delta and encoder latency clamped to 0..1000 when it is
  enabled; the total is always between 0 and 1000; and \<^verbatim>\<open>set_av_sync_delay\<close> is called
  with the new total on every window source.
\<close>

theorem av_sync_delay_total_clamped:
  "av_sync_delay_total (update_av_sync_delay_total lat ws_set s) =
     (if av_sync s then clamp (av_sync_delay s + av_sync_delta s + lat) 0 1000 else 0)
   \<and> 0 \<le> av_sync_delay_total (update_av_sync_delay_total lat ws_set s)
   \<and> av_sync_delay_total (update_av_sync_delay_total lat ws_set s) \<le> 1000
   \<and> window_sources (mixins (update_av_sync_delay_total lat ws_set s)) =
       map (\<lambda>(wid, ws).
              (wid, ws_set (av_sync_delay_total (update_av_sync_delay_total lat ws_set s)) ws))
         (window_sources (mixins s))"
  by (simp add: update_av_sync_delay_total_def clamp_def Let_def)

subsection \<open>Capability negotiation\<close>

text \<open>
  Claim C8. \<^verbatim>\<open>parse_hello\<close> keeps the desktop size the client sent only when
  \<open>0 < w < 32768\<close> and \<open>0 < h < 32768\<close>; any other pair, such as (40000, 10), leaves
  \<^verbatim>\<open>desktop_size\<close> at \<^verbatim>\<open>None\<close>, the rest of the session is untouched and nothing is
  raised.
\<close>

theorem desktop_size_validated:
  "parse_hello_desktop_size c s =
     s\<lparr>desktop_size :=
         (case c of
            None \<Rightarrow> None
          | Some (w, h) \<Rightarrow>
              if 0 < w \<and> w < 32768 \<and> 0 < h \<and> h < 32768 then Some (w, h) else None)\<rparr>
   \<and> desktop_size (parse_hello_desktop_size (Some (40000, 10)) s) = None"
  by (auto simp: parse_hello_desktop_size_def Let_def split: option.splits)

subsection \<open>Notifications\<close>

text \<open>
  Claim C9. \<^verbatim>\<open>notify\<close> returns \<^verbatim>\<open>False\<close> and leaves the session as it is when the
  client has not negotiated notifications or the session is suspended. Otherwise it
  returns \<^verbatim>\<open>True\<close>, stores the user callback, if one is given, under the notification id
  (replacing an earlier one), and only when the hello packet has been sent (and a protocol
  is attached, as for every \<^verbatim>\<open>send\<close>) it queues, asynchronously, the packet
  \<^verbatim>\<open>notify_show\<close> with the notification's arguments, summary and body encoded, actions
  and hints last, and wakes the protocol. \<^verbatim>\<open>notify_close\<close> queues the
  \<^verbatim>\<open>notify_close\<close> packet only when notifications are negotiated, the session is not
  suspended and the hello packet has been sent.
\<close>

theorem notify_gating:
  "((\<not> send_notifications s \<or> suspended (mixins s)) \<longrightarrow>
      notify enc str a cb s = (False, s))
   \<and> (send_notifications s \<and> \<not> suspended (mixins s) \<longrightarrow>
        fst (notify enc str a cb s) = True
      \<and> notification_callbacks (snd (notify enc str a cb s)) =
          (case cb of
             None \<Rightarrow> notification_callbacks s
           | Some c \<Rightarrow> (notification_callbacks s)(nid a \<mapsto> c))
      \<and> ordinary_packets (snd (notify enc str a cb s)) =
          (if hello_sent s \<and> protocol s \<noteq> None
           then ordinary_packets s @
                  [([PyStr ''notify_show'', dbus_id a, PyInt (nid a), app_name a, replaces_nid a,
                     app_icon a,
                     (case enc (summary a) of Some b \<Rightarrow> b | None \<Rightarrow> str (summary a)),
                     (case enc (body a) of Some b \<Rightarrow> b | None \<Rightarrow> str (body a)),
                     expire_timeout a, icon a, actions a, hints a],
                    False, None, True)]
           else ordinary_packets s)
      \<and> source_has_more_calls (snd (notify enc str a cb s)) =
          (if hello_sent s \<and> protocol s \<noteq> None
           then Suc (source_has_more_calls s) else source_has_more_calls s))
   \<and> notify_close n s =
       (if send_notifications s \<and> \<not> suspended (mixins s) \<and> hello_sent s
        then send_more [PyStr ''notify_close'', PyInt n] no_kwargs s
        else s)
   \<and> ordinary_packets (notify_close n s) =
       (if send_notifications s \<and> \<not> suspended (mixins s) \<and> hello_sent s \<and> protocol s \<noteq> None
        then ordinary_packets s @ [([PyStr ''notify_close'', PyInt n], True, None, True)]
        else ordinary_packets s)"
  by (auto simp: notify_def notify_close_def send_async_def send_more_def send_def no_kwargs_def
      notify_show_packet_def to_utf8_def Let_def split: option.splits)

text \<open>Without negotiated notifications \<^verbatim>\<open>notify\<close> does nothing. With them, a
  notification with id 7 before the hello packet is sent records the callback and queues
  nothing; once the hello packet is sent, \<^verbatim>\<open>notify_close(7)\<close> queues its packet, and
  \<^verbatim>\<open>notify\<close> queues the \<^verbatim>\<open>notify_show\<close> packet with the encoded summary and
  body (or, when encoding raises, their \<^verbatim>\<open>str\<close>) and wakes the protocol.\<close>

theorem notify_gating_witness:
  "notify Some id example_notification (Some (Callback 1)) example_session = (False, example_session)
   \<and> fst (notify Some id example_notification (Some (Callback 1)) notification_example) = True
   \<and> notification_callbacks
        (snd (notify Some id example_notification (Some (Callback 1)) notification_example)) 7
       = Some (Callback 1)
   \<and> ordinary_packets
        (snd (notify Some id example_notification (Some (Callback 1)) notification_example)) = []
   \<and> ordinary_packets
        (notify_close 7
          ((snd (notify Some id example_notification (Some (Callback 1)) notification_example))
             \<lparr>hello_sent := True\<rparr>))
       = [([PyStr ''notify_close'', PyInt 7], True, None, True)]
   \<and> fst (notify Some id example_notification (Some (Callback 1)) hello_sent_example) = True
   \<and> ordinary_packets
        (snd (notify Some id example_notification (Some (Callback 1)) hello_sent_example))
       = [([PyStr ''notify_show'', PyStr [], PyInt 7, PyStr ''Xpra'', PyInt 0, PyStr [],
            PyStr ''idle'', PyStr ''about to disconnect'', PyInt 10000, PyNone,
            PyTuple [], PyTuple []],
           False, None, True)]
   \<and> source_has_more_calls
        (snd (notify Some id example_notification (Some (Callback 1)) hello_sent_example)) = 1
   \<and> ordinary_packets
        (snd (notify (\<lambda>x. None) (\<lambda>x. PyStr ''text'') example_notification None
               hello_sent_example))
       = [([PyStr ''notify_show'', PyStr [], PyInt 7, PyStr ''Xpra'', PyInt 0, PyStr [],
            PyStr ''text'', PyStr ''text'', PyInt 10000, PyNone, PyTuple [], PyTuple []],
           False, None, True)]"
proof -
  let ?n = "notify Some id example_notification (Some (Callback 1))"
  have off: "\<not> send_notifications example_session"
    by (simp add: example_session_eq)
  have on: "send_notifications notification_example \<and> \<not> suspended (mixins notification_example)"
    by (simp add: notification_example_def example_session_eq example_mixins_def)
  have vals: "hello_sent notification_example = False" "ordinary_packets notification_example = []"
    "nid example_notification = 7"
    by (simp_all add: notification_example_def example_session_eq example_notification_def)
  have first: "?n example_session = (False, example_session)"
    using notify_gating [where s = example_session] off by blast
  have second: "fst (?n notification_example) = True
      \<and> notification_callbacks (snd (?n notification_example)) 7 = Some (Callback 1)
      \<and> ordinary_packets (snd (?n notification_example)) = []"
    using notify_gating [where s = notification_example and enc = Some and str = id
        and a = example_notification and cb = "Some (Callback 1)"] on
    by (simp add: vals)
  let ?s2 = "(snd (?n notification_example))\<lparr>hello_sent := True\<rparr>"
  have s2: "send_notifications ?s2" "\<not> suspended (mixins ?s2)" "hello_sent ?s2"
    "protocol ?s2 \<noteq> None" "ordinary_packets ?s2 = []"
    using second
    by (simp_all add: notify_def Let_def notification_example_def example_session_eq
        example_mixins_def)
  have third: "ordinary_packets (notify_close 7 ?s2) =
      [([PyStr ''notify_close'', PyInt 7], True, None, True)]"
    using notify_gating [where s = ?s2 and n = 7, THEN conjunct2, THEN conjunct2, THEN conjunct2]
      s2
    by simp
  have hs: "send_notifications hello_sent_example \<and> \<not> suspended (mixins hello_sent_example)"
    "hello_sent hello_sent_example" "protocol hello_sent_example \<noteq> None"
    "ordinary_packets hello_sent_example = []" "source_has_more_calls hello_sent_example = 0"
    by (simp_all add: hello_sent_example_def notification_example_def example_session_eq
        example_mixins_def)
  have args: "dbus_id example_notification = PyStr []" "app_name example_notification = PyStr ''Xpra''"
    "replaces_nid example_notification = PyInt 0" "app_icon example_notification = PyStr []"
    "summary example_notification = PyStr ''idle''"
    "body example_notification = PyStr ''about to disconnect''"
    "actions example_notification = PyTuple []" "hints example_notification = PyTuple []"
    "expire_timeout example_notification = PyInt 10000" "icon example_notification = PyNone"
    by (simp_all add: example_notification_def)
  have fourth: "fst (?n hello_sent_example) = True
      \<and> ordinary_packets (snd (?n hello_sent_example))
       = [([PyStr ''notify_show'', PyStr [], PyInt 7, PyStr ''Xpra'', PyInt 0, PyStr [],
            PyStr ''idle'', PyStr ''about to disconnect'', PyInt 10000, PyNone,
            PyTuple [], PyTuple []],
           False, None, True)]
      \<and> source_has_more_calls (snd (?n hello_sent_example)) = 1"
    using notify_gating [where s = hello_sent_example and enc = Some and str = id
        and a = example_notification and cb = "Some (Callback 1)",
        THEN conjunct2, THEN conjunct1, rule_format, OF hs(1)] hs(2-)
    by (simp add: vals args)
  have fifth: "ordinary_packets
        (snd (notify (\<lambda>x. None) (\<lambda>x. PyStr ''text'') example_notification None
               hello_sent_example))
       = [([PyStr ''notify_show'', PyStr [], PyInt 7, PyStr ''Xpra'', PyInt 0, PyStr [],
            PyStr ''text'', PyStr ''text'', PyInt 10000, PyNone, PyTuple [], PyTuple []],
           False, None, True)]"
    using notify_gating [where s = hello_sent_example and enc = "\<lambda>x. None"
        and str = "\<lambda>x. PyStr ''text''" and a = example_notification and cb = None,
        THEN conjunct2, THEN conjunct1, rule_format, OF hs(1)] hs(2-)
    by (simp add: vals args)
  from first second third fourth fifth show ?thesis by simp
qed

end
